theory Spec2Isabelle
  imports Complex_Main
begin

section \<open>Data model of the node graph (graph.js as written by scripts/restore\_graph.py)\<close>

text \<open>
  The program is the JavaScript text that \<^verbatim>\<open>scripts/restore_graph.py\<close> writes into
  \<^verbatim>\<open>graph.js\<close>: the method \<^verbatim>\<open>Node.getPinsData\<close> and the classes
  \<^verbatim>\<open>WiringController\<close> and \<^verbatim>\<open>GraphController\<close>. Each method is embedded as a HOL
  function on an explicit graph state. Names follow the source.
\<close>

datatype dir = In | Out

text \<open>A literal stored for a pin; JavaScript's \<^verbatim>\<open>undefined\<close> is \<open>None\<close> of the option type.\<close>

datatype literal = LNum real | LStr string | LBool bool

text \<open>
  A Pin object. The field \<open>pnode\<close> is the identifier of the owning Node
  (\<^verbatim>\<open>pin.node.id\<close>): the source reads nothing else through \<^verbatim>\<open>pin.node\<close>
  except for drawing, and never assigns \<^verbatim>\<open>node.id\<close>.
\<close>

record pin =
  pid :: string
  pname :: string
  ptype :: string
  pdir :: dir
  pcontainer :: string
  pdefault :: "literal option"
  plinks :: "string list"
  pcustom :: bool
  pnode :: string


text \<open>
  A pin specification: an entry of a template's \<^verbatim>\<open>pins\<close> and also an entry of the
  array returned by \<^verbatim>\<open>getPinsData\<close> (a saved pin), which \<^verbatim>\<open>loadState\<close> may pass
  to the Pin constructor in place of a template entry.
\<close>

record pinData =
  pd_id :: string
  pd_name :: string
  pd_type :: string
  pd_dir :: dir
  pd_container :: string
  pd_default :: "literal option"
  pd_literal :: "literal option"
  pd_custom :: bool

text \<open>A catalog entry, as returned by \<^verbatim>\<open>nodeRegistry.get\<close>.\<close>

record template =
  t_title :: string
  t_pins :: "pinData list"
  t_singleton :: bool

text \<open>
  A Node object. \<open>npins\<close> holds references to Pin objects (addresses in the pin store);
  \<open>nliterals\<close> is the JavaScript Map \<^verbatim>\<open>pinLiterals\<close> in insertion order, a stored
  \<^verbatim>\<open>undefined\<close> being \<open>None\<close>.
\<close>

record node =
  nid :: string
  nx :: real
  ny :: real
  nkey :: string
  ntitle :: string
  npins :: "nat list"
  nliterals :: "(string \<times> literal option) list"

text \<open>A Link object; \<open>lstart\<close> and \<open>lend\<close> are references to Pin objects.\<close>

record link =
  lid :: string
  lstart :: nat
  lend :: nat

text \<open>Notifications to the persistence and compiler collaborators.\<close>

datatype event = AutoSave | MarkDirty

datatype selmode = Add | Remove | Toggle | New


text \<open>
  The state shared by the two controllers. \<open>nodes\<close> is \<^verbatim>\<open>GraphController.nodes\<close>
  and \<open>links\<close> is \<^verbatim>\<open>WiringController.links\<close>, both JavaScript Maps in insertion
  order whose key is always the identifier of the stored object. \<open>pinstore\<close> is the
  store of Pin objects: a reference is an index, a new Pin takes the next index.
  \<open>selectedNodes\<close> and \<open>selectedLinks\<close> are the two Sets, in insertion order.
  \<open>fired\<close> lists the collaborator notifications made synchronously, \<open>deferred\<close> those
  made inside a \<^verbatim>\<open>requestAnimationFrame\<close> callback. Rendering
  (\<^verbatim>\<open>render\<close>, \<^verbatim>\<open>updateVisuals\<close>, \<^verbatim>\<open>redrawNodeWires\<close>, \<^verbatim>\<open>drawWire\<close>, the details
  panel, console warnings) is outside the model; every pin's display element is taken to
  be attached, so \<^verbatim>\<open>drawWire\<close> only draws.
\<close>

record graph =
  nodes :: "node list"
  links :: "link list"
  pinstore :: "pin list"
  selectedNodes :: "string list"
  selectedLinks :: "string list"
  counter :: nat
  fired :: "event list"
  deferred :: "event list"

text \<open>
  The collaborators the code consumes and that are not among the sources:
  \<^verbatim>\<open>nodeRegistry.get\<close>, \<^verbatim>\<open>Utils.getConversionNodeKey\<close>, \<^verbatim>\<open>Utils.getPinPosition\<close>
  (by pin reference) and the suffix \<^verbatim>\<open>Utils.uniqueId\<close> puts after its prefix.
\<close>

record env =
  registry :: "string \<Rightarrow> template option"
  conversion :: "string \<Rightarrow> string \<Rightarrow> string option"
  pinPosition :: "nat \<Rightarrow> real \<times> real"
  idSuffix :: "nat \<Rightarrow> string"

section \<open>JavaScript Map, Set and string operations\<close>

text \<open>\<^verbatim>\<open>Map.set\<close> under the key \<open>key x\<close>: replace in place or append.\<close>

fun mapSet :: "('a \<Rightarrow> string) \<Rightarrow> 'a \<Rightarrow> 'a list \<Rightarrow> 'a list" where
  "mapSet key x [] = [x]"
| "mapSet key x (y # ys) = (if key y = key x then x # ys else y # mapSet key x ys)"

definition setAdd :: "string \<Rightarrow> string list \<Rightarrow> string list" where
  "setAdd x xs = (if x \<in> set xs then xs else xs @ [x])"

definition setDelete :: "string \<Rightarrow> string list \<Rightarrow> string list" where
  "setDelete x xs = filter (\<lambda>y. y \<noteq> x) xs"

text \<open>\<^verbatim>\<open>pinLiterals.set\<close> and \<^verbatim>\<open>pinLiterals.get\<close>.\<close>

fun litSet :: "string \<Rightarrow> literal option \<Rightarrow> (string \<times> literal option) list
    \<Rightarrow> (string \<times> literal option) list" where
  "litSet k v [] = [(k, v)]"
| "litSet k v (e # es) = (if fst e = k then (k, v) # es else e # litSet k v es)"

definition litGet :: "(string \<times> literal option) list \<Rightarrow> string \<Rightarrow> literal option" where
  "litGet m k = (case map_of m k of None \<Rightarrow> None | Some v \<Rightarrow> v)"

text \<open>\<^verbatim>\<open>s.split(c)\<close>, \<^verbatim>\<open>s.startsWith(pat)\<close>, \<^verbatim>\<open>s.includes(pat)\<close> and
  \<^verbatim>\<open>s.replace(pat, rep)\<close> for a string pattern (first occurrence only).\<close>

fun splitOn :: "char \<Rightarrow> string \<Rightarrow> string list" where
  "splitOn c [] = [[]]"
| "splitOn c (x # xs) =
     (if x = c then [] # splitOn c xs
      else (case splitOn c xs of [] \<Rightarrow> [[x]] | p # ps \<Rightarrow> (x # p) # ps))"

fun startsWith :: "string \<Rightarrow> string \<Rightarrow> bool" where
  "startsWith [] s = True"
| "startsWith (p # ps) [] = False"
| "startsWith (p # ps) (c # cs) = (p = c \<and> startsWith ps cs)"

fun includesStr :: "string \<Rightarrow> string \<Rightarrow> bool" where
  "includesStr pat [] = (pat = [])"
| "includesStr pat (c # cs) = (startsWith pat (c # cs) \<or> includesStr pat cs)"

fun replaceFirst :: "string \<Rightarrow> string \<Rightarrow> string \<Rightarrow> string" where
  "replaceFirst pat rep [] = (if pat = [] then rep else [])"
| "replaceFirst pat rep (c # cs) =
     (if startsWith pat (c # cs) then rep @ drop (length pat) (c # cs)
      else c # replaceFirst pat rep cs)"

section \<open>Pin and Node\<close>

text \<open>
  Modelled from the spec: \<^verbatim>\<open>Utils.uniqueId\<close> is not among the sources. Identifiers
  are unique; the model takes the prefix, a hyphen and a suffix drawn from a counter,
  the two-part shape that \<^verbatim>\<open>GraphController.findPinById\<close> splits a pin identifier by.
\<close>

definition uniqueId :: "env \<Rightarrow> string \<Rightarrow> graph \<Rightarrow> string \<times> graph" where
  "uniqueId E prefix s =
     (prefix @ ''-'' @ idSuffix E (counter s), s\<lparr>counter := Suc (counter s)\<rparr>)"

text \<open>
  Modelled from the spec: the Pin class is not among the sources. A pin's identifier is
  scoped as \<^verbatim>\<open><nodeId>-<localId>\<close>, its link list starts empty, input pins of
  non-exec type take at most one link, output pins and exec pins any number (\<open>None\<close>).
\<close>

definition newPin :: "string \<Rightarrow> pinData \<Rightarrow> pin" where
  "newPin nodeId p =
     \<lparr>pid = nodeId @ ''-'' @ pd_id p, pname = pd_name p, ptype = pd_type p,
      pdir = pd_dir p, pcontainer = pd_container p, pdefault = pd_default p,
      plinks = [], pcustom = pd_custom p, pnode = nodeId\<rparr>"

definition getMaxLinks :: "pin \<Rightarrow> nat option" where
  "getMaxLinks p = (if pdir p = In \<and> ptype p \<noteq> ''exec'' then Some 1 else None)"

definition isConnected :: "pin \<Rightarrow> bool" where
  "isConnected p = (plinks p \<noteq> [])"

text \<open>
  Modelled from the spec: the Node constructor is not among the sources. A node is an
  instance of a template, owning one new Pin per pin specification, in order, and a
  mapping from pin identifier to literal value, which starts empty.
\<close>

definition newNode ::
  "string \<Rightarrow> string \<Rightarrow> pinData list \<Rightarrow> real \<Rightarrow> real \<Rightarrow> string \<Rightarrow> graph \<Rightarrow> node \<times> graph" where
  "newNode i title ps x y key s =
     (\<lparr>nid = i, nx = x, ny = y, nkey = key, ntitle = title,
       npins = [length (pinstore s) ..< length (pinstore s) + length ps],
       nliterals = []\<rparr>,
      s\<lparr>pinstore := pinstore s @ map (newPin i) ps\<rparr>)"

text \<open>
  Modelled from the spec: \<^verbatim>\<open>Node.findPinById\<close> is an exact lookup within the node's
  pin collection.
\<close>

definition nodeFindPinById :: "node \<Rightarrow> string \<Rightarrow> graph \<Rightarrow> nat option" where
  "nodeFindPinById n i s = find (\<lambda>a. pid (pinstore s ! a) = i) (npins n)"

definition nodesGet :: "string \<Rightarrow> graph \<Rightarrow> node option" where
  "nodesGet i s = find (\<lambda>n. nid n = i) (nodes s)"

definition linksGet :: "string \<Rightarrow> graph \<Rightarrow> link option" where
  "linksGet i s = find (\<lambda>l. lid l = i) (links s)"

text \<open>\<^verbatim>\<open>Node.getPinsData\<close>.\<close>

definition getPinsData :: "node \<Rightarrow> graph \<Rightarrow> pinData list" where
  "getPinsData n s =
     map (\<lambda>a. let p = pinstore s ! a in
            \<lparr>pd_id = (if pid p \<noteq> [] then replaceFirst (nid n @ ''-'') [] (pid p)
                       else ''CORRUPTED''),
             pd_name = pname p, pd_type = ptype p, pd_dir = pdir p,
             pd_container = pcontainer p, pd_default = None,
             pd_literal = litGet (nliterals n) (pid p), pd_custom = pcustom p\<rparr>)
         (npins n)"

section \<open>GraphController.canConnect\<close>

text \<open>
  \<^verbatim>\<open>Utils.getConversionNodeKey\<close> is a parameter \<open>conv\<close>; its result is tested with
  JavaScript truthiness, so the empty string counts as no key.
\<close>

definition truthy :: "string option \<Rightarrow> bool" where
  "truthy k = (case k of None \<Rightarrow> False | Some s \<Rightarrow> s \<noteq> [])"

text \<open>
  The arguments are \<open>None\<close> for a null pin. Every Pin is constructed with its owning
  node, so the source's test \<^verbatim>\<open>!pinA.node\<close> has no further case here.
\<close>

definition canConnect ::
  "(string \<Rightarrow> string \<Rightarrow> string option) \<Rightarrow> pin option \<Rightarrow> pin option \<Rightarrow> bool" where
  "canConnect conv pinA pinB =
     (case pinA of None \<Rightarrow> False | Some a \<Rightarrow>
      (case pinB of None \<Rightarrow> False | Some b \<Rightarrow>
        if pnode a = pnode b then False
        else if pdir a = pdir b then False
        else
          let startPin = (if pdir a = Out then a else b);
              endPin = (if pdir a = In then a else b)
          in if pcontainer startPin \<noteq> pcontainer endPin then False
             else if ptype startPin = ptype endPin then True
             else if ptype startPin = ''exec'' \<and> ptype endPin = ''exec'' then True
             else if truthy (conv (ptype startPin) (ptype endPin)) then True
             else False))"

section \<open>WiringController\<close>

definition findLinksByPinId :: "string \<Rightarrow> graph \<Rightarrow> link list" where
  "findLinksByPinId pinId s =
     filter (\<lambda>l. pid (pinstore s ! lstart l) = pinId \<or> pid (pinstore s ! lend l) = pinId)
       (links s)"

text \<open>\<^verbatim>\<open>pin.links = pin.links.filter(id => id !== linkId)\<close> and
  \<^verbatim>\<open>pin.links.push(linkId)\<close> on the Pin object at reference \<open>a\<close>.\<close>

definition dropLinkId :: "string \<Rightarrow> nat \<Rightarrow> pin list \<Rightarrow> pin list" where
  "dropLinkId linkId a st =
     st[a := (st ! a)\<lparr>plinks := filter (\<lambda>i. i \<noteq> linkId) (plinks (st ! a))\<rparr>]"

definition pushLinkId :: "string \<Rightarrow> nat \<Rightarrow> pin list \<Rightarrow> pin list" where
  "pushLinkId linkId a st = st[a := (st ! a)\<lparr>plinks := plinks (st ! a) @ [linkId]\<rparr>]"

text \<open>\<^verbatim>\<open>breakLinkById\<close>: its two notifications are made inside the
  \<^verbatim>\<open>requestAnimationFrame\<close> callback.\<close>

definition breakLinkById :: "string \<Rightarrow> graph \<Rightarrow> graph" where
  "breakLinkById linkId s =
     (case linksGet linkId s of
        None \<Rightarrow> s
      | Some l \<Rightarrow>
          s\<lparr>pinstore := dropLinkId linkId (lend l) (dropLinkId linkId (lstart l) (pinstore s)),
            links := filter (\<lambda>k. lid k \<noteq> linkId) (links s),
            selectedLinks := setDelete linkId (selectedLinks s),
            deferred := deferred s @ [AutoSave, MarkDirty]\<rparr>)"

definition breakPinLinks :: "string \<Rightarrow> graph \<Rightarrow> graph" where
  "breakPinLinks pinId s = fold (\<lambda>l. breakLinkById (lid l)) (findLinksByPinId pinId s) s"

text \<open>\<^verbatim>\<open>_addLink\<close>.\<close>

definition addLink :: "env \<Rightarrow> nat \<Rightarrow> nat \<Rightarrow> graph \<Rightarrow> graph" where
  "addLink E startPin endPin s =
     (case uniqueId E ''link'' s of
        (i, s1) \<Rightarrow>
          s1\<lparr>links := mapSet lid \<lparr>lid = i, lstart = startPin, lend = endPin\<rparr> (links s1),
             pinstore := pushLinkId i endPin (pushLinkId i startPin (pinstore s1))\<rparr>)"

section \<open>GraphController: selection and node creation\<close>

definition clearSelection :: "graph \<Rightarrow> graph" where
  "clearSelection s = s\<lparr>selectedNodes := []\<rparr>"

definition selectNode :: "string \<Rightarrow> bool \<Rightarrow> selmode \<Rightarrow> graph \<Rightarrow> graph" where
  "selectNode nodeId addToSelection mode s =
     (case nodesGet nodeId s of
        None \<Rightarrow> s
      | Some n \<Rightarrow>
          let s1 = (if \<not> addToSelection then clearSelection s else s)
          in (case mode of
                Add \<Rightarrow> s1\<lparr>selectedNodes := setAdd nodeId (selectedNodes s1)\<rparr>
              | Remove \<Rightarrow> s1\<lparr>selectedNodes := setDelete nodeId (selectedNodes s1)\<rparr>
              | Toggle \<Rightarrow>
                  (if nodeId \<in> set (selectedNodes s1)
                   then s1\<lparr>selectedNodes := setDelete nodeId (selectedNodes s1)\<rparr>
                   else s1\<lparr>selectedNodes := setAdd nodeId (selectedNodes s1)\<rparr>)
              | New \<Rightarrow> s1\<lparr>selectedNodes := setAdd nodeId (selectedNodes s1)\<rparr>))"

text \<open>\<^verbatim>\<open>addNode\<close> returns the new Node, or \<open>None\<close> for \<^verbatim>\<open>null\<close>.\<close>

definition addNode :: "env \<Rightarrow> string \<Rightarrow> real \<Rightarrow> real \<Rightarrow> graph \<Rightarrow> node option \<times> graph" where
  "addNode E nodeKey x y s =
     (case registry E nodeKey of
        None \<Rightarrow> (None, s)
      | Some nodeData \<Rightarrow>
          (case (if t_singleton nodeData then find (\<lambda>n. nkey n = nodeKey) (nodes s) else None) of
             Some existingNode \<Rightarrow> (None, selectNode (nid existingNode) False New s)
           | None \<Rightarrow>
               (case uniqueId E ''node'' s of
                  (i, s1) \<Rightarrow>
                    (case newNode i (t_title nodeData) (t_pins nodeData) x y nodeKey s1 of
                       (n, s2) \<Rightarrow>
                         (Some n, s2\<lparr>nodes := mapSet nid n (nodes s2),
                                     fired := fired s2 @ [MarkDirty]\<rparr>)))))"

section \<open>WiringController.createConnection\<close>

text \<open>The last five statements of \<^verbatim>\<open>createConnection\<close>: the direct link.\<close>

definition connectDirect :: "env \<Rightarrow> nat \<Rightarrow> nat \<Rightarrow> graph \<Rightarrow> graph" where
  "connectDirect E startPin endPin s =
     (let s1 = addLink E startPin endPin s in s1\<lparr>fired := fired s1 @ [AutoSave, MarkDirty]\<rparr>)"

text \<open>
  The block \<^verbatim>\<open>if (!isExecPin && !typesMatch) { ... }\<close> of \<^verbatim>\<open>createConnection\<close>. The
  result is \<open>True\<close> with the final state when the block returns from
  \<^verbatim>\<open>createConnection\<close> (the adapter was wired in), and \<open>False\<close> with the state reached
  when control falls through to the direct link.
\<close>

definition tryAdapter :: "env \<Rightarrow> nat \<Rightarrow> nat \<Rightarrow> graph \<Rightarrow> bool \<times> graph" where
  "tryAdapter E startPin endPin s1 =
     (let startType = ptype (pinstore s1 ! startPin);
          endType = ptype (pinstore s1 ! endPin);
          isExecPin = (startType = ''exec'' \<or> endType = ''exec'');
          typesMatch = (startType = endType)
      in if \<not> isExecPin \<and> \<not> typesMatch then
           (case conversion E startType endType of
              None \<Rightarrow> (False, s1)
            | Some convKey \<Rightarrow>
                if convKey = [] then (False, s1)
                else
                  let midX = (fst (pinPosition E startPin) + fst (pinPosition E endPin)) / 2;
                      midY = (snd (pinPosition E startPin) + snd (pinPosition E endPin)) / 2
                  in (case addNode E convKey (midX - 40) (midY - 15) s1 of
                        (None, s2) \<Rightarrow> (False, s2)
                      | (Some convNode, s2) \<Rightarrow>
                          (case nodeFindPinById convNode (nid convNode @ ''-val_in'') s2 of
                             None \<Rightarrow>
                               (False, s2\<lparr>nodes := filter (\<lambda>m. nid m \<noteq> nid convNode) (nodes s2)\<rparr>)
                           | Some convIn \<Rightarrow>
                               (case nodeFindPinById convNode (nid convNode @ ''-val_out'') s2 of
                                  None \<Rightarrow>
                                    (False,
                                     s2\<lparr>nodes := filter (\<lambda>m. nid m \<noteq> nid convNode) (nodes s2)\<rparr>)
                                | Some convOut \<Rightarrow>
                                    (let s3 = addLink E convOut endPin
                                                (addLink E startPin convIn s2)
                                     in (True, s3\<lparr>fired := fired s3 @ [AutoSave, MarkDirty]\<rparr>))))))
         else (False, s1))"

definition createConnection :: "env \<Rightarrow> nat option \<Rightarrow> nat option \<Rightarrow> graph \<Rightarrow> graph" where
  "createConnection E pinA pinB s =
     (case pinA of None \<Rightarrow> s | Some a \<Rightarrow>
      (case pinB of None \<Rightarrow> s | Some b \<Rightarrow>
        let startPin = (if pdir (pinstore s ! a) = Out then a else b);
            endPin = (if pdir (pinstore s ! a) = In then a else b);
            s1 = (if getMaxLinks (pinstore s ! endPin) = Some 1 \<and> isConnected (pinstore s ! endPin)
                  then breakPinLinks (pid (pinstore s ! endPin)) s else s)
        in (case tryAdapter E startPin endPin s1 of
              (True, s') \<Rightarrow> s'
            | (False, s2) \<Rightarrow> connectDirect E startPin endPin s2)))"

section \<open>GraphController: deletion, move completion, resynchronization\<close>



text \<open>\<^verbatim>\<open>Math.round(v / gridSize) * gridSize\<close> with \<^verbatim>\<open>gridSize = 10\<close>, on exact reals.\<close>

definition snap :: "real \<Rightarrow> real" where
  "snap v = of_int \<lfloor>v / 10 + 1 / 2\<rfloor> * 10"

definition snapSelectedNodesToGrid :: "graph \<Rightarrow> graph" where
  "snapSelectedNodesToGrid s =
     fold (\<lambda>i t. case nodesGet i t of
                   None \<Rightarrow> t
                 | Some n \<Rightarrow> t\<lparr>nodes := mapSet nid (n\<lparr>nx := snap (nx n), ny := snap (ny n)\<rparr>) (nodes t)\<rparr>)
       (selectedNodes s) s"







section \<open>GraphController: pin lookup and duplication\<close>

text \<open>\<^verbatim>\<open>GraphController.findPinById\<close>; \<open>None\<close> as argument is \<^verbatim>\<open>undefined\<close>.\<close>

definition findPinById :: "string option \<Rightarrow> graph \<Rightarrow> nat option" where
  "findPinById pinId s =
     (case pinId of
        None \<Rightarrow> None
      | Some i \<Rightarrow>
          if i = [] then None
          else
            let parts = splitOn CHR ''-'' i
            in if length parts < 2 then None
               else (case nodesGet (parts ! 0 @ ''-'' @ parts ! 1) s of
                       None \<Rightarrow> None
                     | Some n \<Rightarrow> nodeFindPinById n i s))"







section \<open>Persistence: the saved shape and loadState\<close>

record savedNode =
  sn_id :: string
  sn_key :: string
  sn_x :: real
  sn_y :: real
  sn_pins :: "pinData list option"

record savedLink =
  sl_id :: string
  sl_start :: string
  sl_end :: string

record savedState =
  sv_nodes :: "savedNode list"
  sv_links :: "savedLink list"

text \<open>
  Modelled from the spec: the persistence layer that serializes the graph is not among
  the sources. The saved shape is a node list (identifier, template key, position, pin
  list as produced by \<^verbatim>\<open>getPinsData\<close>) and a link list (identifier, start-pin full
  identifier, end-pin full identifier).
\<close>

definition serialize :: "graph \<Rightarrow> savedState" where
  "serialize s =
     \<lparr>sv_nodes = map (\<lambda>n. \<lparr>sn_id = nid n, sn_key = nkey n, sn_x = nx n, sn_y = ny n,
                            sn_pins = Some (getPinsData n s)\<rparr>) (nodes s),
      sv_links = map (\<lambda>l. \<lparr>sl_id = lid l, sl_start = pid (pinstore s ! lstart l),
                            sl_end = pid (pinstore s ! lend l)\<rparr>) (links s)\<rparr>"

text \<open>The callback of \<^verbatim>\<open>nodeData.pins.forEach\<close> in \<^verbatim>\<open>loadState\<close>, on the node's
  \<^verbatim>\<open>pinLiterals\<close>.\<close>

definition restoreLiteral ::
  "node \<Rightarrow> graph \<Rightarrow> pinData \<Rightarrow> (string \<times> literal option) list
     \<Rightarrow> (string \<times> literal option) list" where
  "restoreLiteral n s savedPin lits =
     (let fullPinId = (if includesStr (nid n) (pd_id savedPin) then pd_id savedPin
                       else nid n @ ''-'' @ pd_id savedPin)
      in (case nodeFindPinById n fullPinId s of
            None \<Rightarrow> lits
          | Some a \<Rightarrow>
              (case pd_literal savedPin of
                 Some v \<Rightarrow> litSet (pid (pinstore s ! a)) (Some v) lits
               | None \<Rightarrow> litSet (pid (pinstore s ! a)) (pdefault (pinstore s ! a)) lits)))"

text \<open>
  The callback of \<^verbatim>\<open>state.nodes.forEach\<close>. The node is entered into \<open>nodes\<close> with its
  literals already restored: the source enters the Node object first and then writes
  its \<^verbatim>\<open>pinLiterals\<close>, which is the same object.
\<close>

definition loadNode :: "env \<Rightarrow> savedNode \<Rightarrow> graph \<Rightarrow> graph" where
  "loadNode E nodeData s =
     (case registry E (sn_key nodeData) of
        None \<Rightarrow> s
      | Some t \<Rightarrow>
          let savedPins =
                (if sn_key nodeData = ''CustomEvent''
                 then map_option (filter (\<lambda>p. pd_id p \<noteq> ''delegate_out''
                                                \<and> pd_name p \<noteq> ''Output Delegate''))
                        (sn_pins nodeData)
                 else sn_pins nodeData);
              pinsToLoad =
                (if sn_key nodeData = ''CustomEvent'' then
                   (case savedPins of
                      Some ps \<Rightarrow> if length ps > length (t_pins t) then ps else t_pins t
                    | None \<Rightarrow> t_pins t)
                 else
                   (let isCustomNode = (sn_key nodeData = ''CustomEvent'')
                    in case savedPins of
                         Some ps \<Rightarrow>
                           if isCustomNode \<and> length ps > length (t_pins t) then ps else t_pins t
                       | None \<Rightarrow> t_pins t))
          in (case newNode (sn_id nodeData) (t_title t) pinsToLoad (sn_x nodeData)
                     (sn_y nodeData) (sn_key nodeData) s of
                (n, s1) \<Rightarrow>
                  let lits = (case savedPins of
                                None \<Rightarrow> nliterals n
                              | Some ps \<Rightarrow> fold (restoreLiteral n s1) ps (nliterals n))
                  in s1\<lparr>nodes := mapSet nid (n\<lparr>nliterals := lits\<rparr>) (nodes s1)\<rparr>))"

text \<open>The callback of \<^verbatim>\<open>state.links.forEach\<close>.\<close>

definition loadLink :: "savedLink \<Rightarrow> graph \<Rightarrow> graph" where
  "loadLink linkData s =
     (case (findPinById (Some (sl_start linkData)) s, findPinById (Some (sl_end linkData)) s) of
        (Some startPin, Some endPin) \<Rightarrow>
          s\<lparr>links := mapSet lid \<lparr>lid = sl_id linkData, lstart = startPin, lend = endPin\<rparr> (links s),
            pinstore := pushLinkId (sl_id linkData) endPin
                          (pushLinkId (sl_id linkData) startPin (pinstore s))\<rparr>
      | _ \<Rightarrow> s)"

definition loadState :: "env \<Rightarrow> savedState \<Rightarrow> graph \<Rightarrow> graph" where
  "loadState E state s =
     fold loadLink (sv_links state)
       (fold (loadNode E) (sv_nodes state) (s\<lparr>nodes := [], links := []\<rparr>))"

section \<open>Example pins\<close>

definition exConv :: "string \<Rightarrow> string \<Rightarrow> string option" where
  "exConv a b = (if a = ''float'' \<and> b = ''string'' then Some ''ToString'' else None)"

definition mkPin :: "string \<Rightarrow> string \<Rightarrow> string \<Rightarrow> dir \<Rightarrow> string \<Rightarrow> pin" where
  "mkPin n l t d c =
     \<lparr>pid = n @ ''-'' @ l, pname = l, ptype = t, pdir = d, pcontainer = c,
      pdefault = None, plinks = [], pcustom = False, pnode = n\<rparr>"

section \<open>Example catalog and graphs\<close>

definition pd :: "string \<Rightarrow> string \<Rightarrow> dir \<Rightarrow> literal option \<Rightarrow> pinData" where
  "pd l t d v =
     \<lparr>pd_id = l, pd_name = l, pd_type = t, pd_dir = d, pd_container = ''single'',
      pd_default = v, pd_literal = None, pd_custom = False\<rparr>"

definition exRegistry :: "string \<Rightarrow> template option" where
  "exRegistry k =
     (if k = ''Add'' \<or> k = ''Multiply'' then
        Some \<lparr>t_title = k,
              t_pins = [pd ''a'' ''float'' In (Some (LNum 0)), pd ''b'' ''float'' In None,
                        pd ''out'' ''float'' Out None],
              t_singleton = False\<rparr>
      else if k = ''ToString'' then
        Some \<lparr>t_title = k,
              t_pins = [pd ''val_in'' ''float'' In None, pd ''val_out'' ''string'' Out None],
              t_singleton = False\<rparr>
      else if k = ''BoolToString'' then
        Some \<lparr>t_title = k, t_pins = [pd ''val_in'' ''bool'' In None], t_singleton = False\<rparr>
      else if k = ''Print'' then
        Some \<lparr>t_title = k, t_pins = [pd ''text'' ''string'' In None], t_singleton = False\<rparr>
      else if k = ''IsPositive'' then
        Some \<lparr>t_title = k,
              t_pins = [pd ''x'' ''float'' In None, pd ''out'' ''bool'' Out None],
              t_singleton = False\<rparr>
      else if k = ''BeginPlay'' then
        Some \<lparr>t_title = k, t_pins = [pd ''exec_out'' ''exec'' Out None], t_singleton = True\<rparr>
      else if k = ''Get_speed'' \<or> k = ''Get_velocity'' then
        Some \<lparr>t_title = k, t_pins = [pd ''val_out'' ''float'' Out None], t_singleton = False\<rparr>
      else if k = ''Get_count'' then
        Some \<lparr>t_title = k, t_pins = [pd ''value'' ''float'' Out None], t_singleton = False\<rparr>
      else None)"

definition exConversion :: "string \<Rightarrow> string \<Rightarrow> string option" where
  "exConversion a b =
     (if a = ''float'' \<and> b = ''string'' then Some ''ToString''
      else if a = ''bool'' \<and> b = ''string'' then Some ''BoolToString''
      else None)"

definition exEnv :: env where
  "exEnv = \<lparr>registry = exRegistry, conversion = exConversion,
            pinPosition = (\<lambda>a. (real a * 10, 0)),
            idSuffix = (\<lambda>n. replicate (Suc n) CHR ''i'')\<rparr>"

definition emptyGraph :: graph where
  "emptyGraph = \<lparr>nodes = [], links = [], pinstore = [], selectedNodes = [],
                 selectedLinks = [], counter = 0, fired = [], deferred = []\<rparr>"

text \<open>An \<open>Add\<close> node at (0,0) with pins 0, 1, 2 and a \<open>Multiply\<close> node at (100,0)
  with pins 3, 4, 5.\<close>

definition exTwoNodes :: graph where
  "exTwoNodes = snd (addNode exEnv ''Multiply'' 100 0 (snd (addNode exEnv ''Add'' 0 0 emptyGraph)))"

text \<open>The same with \<open>Add.out\<close> linked to \<open>Multiply.a\<close>.\<close>

definition exLinked :: graph where
  "exLinked = createConnection exEnv (Some 2) (Some 3) exTwoNodes"

text \<open>The two-node graph with the \<open>Add\<close> node selected.\<close>

definition exSelected :: graph where
  "exSelected = selectNode ''node-i'' False New exTwoNodes"

text \<open>A graph holding the one instance of the singleton \<open>BeginPlay\<close>.\<close>

definition exBegin :: graph where
  "exBegin = snd (addNode exEnv ''BeginPlay'' 0 0 emptyGraph)"

section \<open>Auxiliary predicates\<close>

text \<open>Two pin stores agree when they hold the same pins up to the pins' link lists.\<close>

definition pinsAgree :: "pin list \<Rightarrow> pin list \<Rightarrow> bool" where
  "pinsAgree st st' \<longleftrightarrow>
     length st' = length st \<and> (\<forall>a. (st' ! a)\<lparr>plinks := []\<rparr> = (st ! a)\<lparr>plinks := []\<rparr>)"

text \<open>
  An \<open>IsPositive\<close> node (pins 0, 1) and a \<open>Print\<close> node (pin 2); the catalog's
  adapter from \<open>bool\<close> to \<open>string\<close>, \<open>BoolToString\<close>, exposes \<open>val_in\<close> only.
\<close>

definition exMismatch :: graph where
  "exMismatch = snd (addNode exEnv ''Print'' 100 0 (snd (addNode exEnv ''IsPositive'' 0 0 emptyGraph)))"




section \<open>Properties of canConnect\<close>

text \<open>
  Claim C2. \<open>canConnect\<close> is false when either pin is missing, when both pins belong to
  the same node, when both have the same direction, or when their container-type tags
  differ. Past these checks it is true when the value types are identical or both are
  \<open>exec\<close>, and otherwise true exactly when a conversion adapter is registered for the
  pair (type of the output pin, type of the input pin). In particular it is false for
  any two pins of one node.
\<close>

theorem canConnect_spec:
  "(pa = None \<or> pb = None \<longrightarrow> \<not> canConnect conv pa pb) \<and>
   (pnode a = pnode b \<longrightarrow> \<not> canConnect conv (Some a) (Some b)) \<and>
   (pdir a = pdir b \<longrightarrow> \<not> canConnect conv (Some a) (Some b)) \<and>
   (pcontainer a \<noteq> pcontainer b \<longrightarrow> \<not> canConnect conv (Some a) (Some b)) \<and>
   (pnode a \<noteq> pnode b \<and> pdir a \<noteq> pdir b \<and> pcontainer a = pcontainer b \<longrightarrow>
      (ptype a = ptype b \<or> (ptype a = ''exec'' \<and> ptype b = ''exec'')
         \<longrightarrow> canConnect conv (Some a) (Some b)) \<and>
      (ptype a \<noteq> ptype b \<longrightarrow>
         canConnect conv (Some a) (Some b) =
           truthy (if pdir a = Out then conv (ptype a) (ptype b)
                   else conv (ptype b) (ptype a))))"
  by (cases "pdir a"; cases "pdir b")
    (auto simp: canConnect_def Let_def split: option.splits)

theorem canConnect_spec_witness:
  "\<not> canConnect exConv None (Some (mkPin ''node-2'' ''a'' ''float'' In ''single'')) \<and>
   \<not> canConnect exConv (Some (mkPin ''node-1'' ''out'' ''float'' Out ''single''))
        (Some (mkPin ''node-1'' ''a'' ''float'' In ''single'')) \<and>
   \<not> canConnect exConv (Some (mkPin ''node-1'' ''out'' ''float'' Out ''single''))
        (Some (mkPin ''node-2'' ''out'' ''float'' Out ''single'')) \<and>
   \<not> canConnect exConv (Some (mkPin ''node-1'' ''out'' ''float'' Out ''single''))
        (Some (mkPin ''node-2'' ''a'' ''float'' In ''array'')) \<and>
   canConnect exConv (Some (mkPin ''node-1'' ''out'' ''float'' Out ''single''))
        (Some (mkPin ''node-2'' ''a'' ''float'' In ''single'')) \<and>
   canConnect exConv (Some (mkPin ''node-2'' ''s'' ''string'' In ''single''))
        (Some (mkPin ''node-1'' ''out'' ''float'' Out ''single'')) \<and>
   \<not> canConnect exConv (Some (mkPin ''node-1'' ''out'' ''string'' Out ''single''))
        (Some (mkPin ''node-2'' ''a'' ''float'' In ''single''))"
  using canConnect_spec [of None "Some (mkPin ''node-2'' ''a'' ''float'' In ''single'')" exConv
      "mkPin ''node-1'' ''out'' ''float'' Out ''single''"
      "mkPin ''node-1'' ''a'' ''float'' In ''single''"]
    canConnect_spec [of None None exConv
      "mkPin ''node-1'' ''out'' ''float'' Out ''single''"
      "mkPin ''node-2'' ''out'' ''float'' Out ''single''"]
    canConnect_spec [of None None exConv
      "mkPin ''node-1'' ''out'' ''float'' Out ''single''"
      "mkPin ''node-2'' ''a'' ''float'' In ''array''"]
    canConnect_spec [of None None exConv
      "mkPin ''node-1'' ''out'' ''float'' Out ''single''"
      "mkPin ''node-2'' ''a'' ''float'' In ''single''"]
    canConnect_spec [of None None exConv
      "mkPin ''node-2'' ''s'' ''string'' In ''single''"
      "mkPin ''node-1'' ''out'' ''float'' Out ''single''"]
    canConnect_spec [of None None exConv
      "mkPin ''node-1'' ''out'' ''string'' Out ''single''"
      "mkPin ''node-2'' ''a'' ''float'' In ''single''"]
  by (simp add: mkPin_def exConv_def truthy_def)

section \<open>Properties of selectNode\<close>

lemma set_setAdd: "set (setAdd x xs) = insert x (set xs)"
  by (auto simp: setAdd_def)

lemma set_setDelete: "set (setDelete x xs) = set xs - {x}"
  by (auto simp: setDelete_def)

text \<open>
  Claim C9, as amended. For a call \<open>selectNode id addToSelection mode\<close> on an existing
  node, whether the prior selection is cleared depends on \<open>addToSelection\<close> alone: it is
  cleared first, in every mode, when \<open>addToSelection\<close> is false, and kept when it is
  true. Then \<open>new\<close> and \<open>add\<close> insert the identifier, \<open>remove\<close> deletes it and
  \<open>toggle\<close> flips it.
\<close>

theorem selectNode_membership:
  assumes "nodesGet i s \<noteq> None"
  shows "set (selectedNodes (selectNode i addToSelection mode s)) =
           (let prior = (if addToSelection then set (selectedNodes s) else {})
            in case mode of
                 New \<Rightarrow> insert i prior
               | Add \<Rightarrow> insert i prior
               | Remove \<Rightarrow> prior - {i}
               | Toggle \<Rightarrow> (if i \<in> prior then prior - {i} else insert i prior))"
  using assms
  by (cases mode)
    (auto simp: selectNode_def clearSelection_def set_setAdd set_setDelete Let_def
       simp flip: set_empty)

theorem selectNode_membership_witness:
  "nodesGet ''node-ii'' exSelected \<noteq> None \<and>
   set (selectedNodes (selectNode ''node-ii'' True Toggle exSelected)) = {''node-i'', ''node-ii''}"
proof -
  have h: "nodesGet ''node-ii'' exSelected \<noteq> None" by code_simp
  have sel: "selectedNodes exSelected = [''node-i'']" by code_simp
  from selectNode_membership [OF h, of True Toggle] sel h show ?thesis
    by (simp add: insert_commute)
qed

text \<open>
  The claim as stated fails: in mode \<open>add\<close> with \<open>addToSelection\<close> false, the selected
  node \<open>node-i\<close> is dropped from the selection when \<open>node-ii\<close> is added.
\<close>

theorem selectNode_add_clears_counterexample:
  "nodesGet ''node-ii'' exSelected \<noteq> None \<and>
   ''node-i'' \<in> set (selectedNodes exSelected) \<and>
   selectedNodes (selectNode ''node-ii'' False Add exSelected) = [''node-ii'']"
  by code_simp

section \<open>Properties of addNode on a singleton\<close>

text \<open>
  Claim C4, as amended. When the catalog template for the key is singleton-flagged and
  a node with that template key exists, \<open>addNode\<close> returns no node and leaves the node
  collection, the link collection, the pins and the notifications as they were; the
  selection is replaced by the existing instance, which the call selects.
\<close>

theorem addNode_singleton:
  assumes "registry E nodeKey = Some t" and "t_singleton t"
    and "find (\<lambda>n. nkey n = nodeKey) (nodes s) = Some existing"
  shows "addNode E nodeKey x y s = (None, s\<lparr>selectedNodes := [nid existing]\<rparr>)"
proof -
  from assms(3) have "existing \<in> set (nodes s)"
    by (auto simp: find_Some_iff)
  then have "nodesGet (nid existing) s \<noteq> None"
    by (auto simp: nodesGet_def find_None_iff)
  then show ?thesis
    using assms
    by (auto simp: addNode_def selectNode_def clearSelection_def setAdd_def)
qed

theorem addNode_singleton_witness:
  "(\<exists>t existing. registry exEnv ''BeginPlay'' = Some t \<and> t_singleton t \<and>
      find (\<lambda>n. nkey n = ''BeginPlay'') (nodes exBegin) = Some existing) \<and>
   addNode exEnv ''BeginPlay'' 50 50 exBegin = (None, exBegin\<lparr>selectedNodes := [''node-i'']\<rparr>)"
proof -
  obtain t where r: "registry exEnv ''BeginPlay'' = Some t" and sg: "t_singleton t"
    by (simp add: exEnv_def exRegistry_def)
  have f: "find (\<lambda>n. nkey n = ''BeginPlay'') (nodes exBegin) =
      Some \<lparr>nid = ''node-i'', nx = 0, ny = 0, nkey = ''BeginPlay'', ntitle = ''BeginPlay'',
            npins = [0], nliterals = []\<rparr>"
    by code_simp
  from addNode_singleton [OF r sg f, of 50 50] r sg f show ?thesis
    by auto
qed

text \<open>
  The claim as stated fails on "no state is mutated": the rejected call changes the
  selection from empty to the existing instance.
\<close>

theorem addNode_singleton_counterexample:
  "fst (addNode exEnv ''BeginPlay'' 50 50 exBegin) = None \<and>
   selectedNodes exBegin = [] \<and>
   selectedNodes (snd (addNode exEnv ''BeginPlay'' 50 50 exBegin)) = [''node-i'']"
  by code_simp



section \<open>Helper lemmas: what breaking and adding links leaves alone\<close>

lemma pinsAgree_refl [simp]: "pinsAgree st st"
  by (simp add: pinsAgree_def)

lemma pinsAgree_trans: "pinsAgree a b \<Longrightarrow> pinsAgree b c \<Longrightarrow> pinsAgree a c"
  by (simp add: pinsAgree_def)

lemma pinsAgree_update:
  "pinsAgree st (st[a := (st ! a)\<lparr>plinks := ls\<rparr>])"
  unfolding pinsAgree_def
proof (intro conjI allI)
  fix b
  show "(st[a := (st ! a)\<lparr>plinks := ls\<rparr>] ! b)\<lparr>plinks := []\<rparr> = (st ! b)\<lparr>plinks := []\<rparr>"
  proof (cases "a < length st")
    case True
    then show ?thesis by (cases "a = b") simp_all
  next
    case False
    then have "st[a := (st ! a)\<lparr>plinks := ls\<rparr>] = st"
      by (simp add: list_update_beyond)
    then show ?thesis by simp
  qed
qed simp

lemma pinsAgree_dropLinkId [simp]: "pinsAgree st (dropLinkId i a st)"
  by (simp add: dropLinkId_def pinsAgree_update)

lemma pinsAgree_pushLinkId [simp]: "pinsAgree st (pushLinkId i a st)"
  by (simp add: pushLinkId_def pinsAgree_update)

lemma pinsAgree_fields:
  assumes "pinsAgree st st'"
  shows "pid (st' ! a) = pid (st ! a)" and "ptype (st' ! a) = ptype (st ! a)"
    and "pdir (st' ! a) = pdir (st ! a)" and "pnode (st' ! a) = pnode (st ! a)"
    and "pdefault (st' ! a) = pdefault (st ! a)" and "length st' = length st"
proof -
  from assms have e: "(st' ! a)\<lparr>plinks := []\<rparr> = (st ! a)\<lparr>plinks := []\<rparr>"
    by (simp add: pinsAgree_def)
  show "pid (st' ! a) = pid (st ! a)" using arg_cong [OF e, of pid] by simp
  show "ptype (st' ! a) = ptype (st ! a)" using arg_cong [OF e, of ptype] by simp
  show "pdir (st' ! a) = pdir (st ! a)" using arg_cong [OF e, of pdir] by simp
  show "pnode (st' ! a) = pnode (st ! a)" using arg_cong [OF e, of pnode] by simp
  show "pdefault (st' ! a) = pdefault (st ! a)" using arg_cong [OF e, of pdefault] by simp
  show "length st' = length st" using assms by (simp add: pinsAgree_def)
qed

lemma breakLinkById_frame [simp]:
  "nodes (breakLinkById i s) = nodes s"
  "counter (breakLinkById i s) = counter s"
  "fired (breakLinkById i s) = fired s"
  "selectedNodes (breakLinkById i s) = selectedNodes s"
  by (simp_all add: breakLinkById_def split: option.splits)

lemma breakLinkById_links: "links (breakLinkById i s) = filter (\<lambda>k. lid k \<noteq> i) (links s)"
proof (cases "linksGet i s")
  case None
  then have "\<forall>k \<in> set (links s). lid k \<noteq> i"
    by (auto simp: linksGet_def find_None_iff)
  then have "filter (\<lambda>k. lid k \<noteq> i) (links s) = links s"
    by (simp add: filter_id_conv)
  with None show ?thesis by (simp add: breakLinkById_def)
next
  case (Some l)
  then show ?thesis by (simp add: breakLinkById_def)
qed

lemma breakLinkById_pins: "pinsAgree (pinstore s) (pinstore (breakLinkById i s))"
  by (auto simp: breakLinkById_def split: option.splits
      intro: pinsAgree_trans [OF pinsAgree_dropLinkId pinsAgree_dropLinkId])

lemma fold_breakLinkById_frame:
  "nodes (fold (\<lambda>l. breakLinkById (lid l)) ls s) = nodes s \<and>
   counter (fold (\<lambda>l. breakLinkById (lid l)) ls s) = counter s \<and>
   fired (fold (\<lambda>l. breakLinkById (lid l)) ls s) = fired s \<and>
   selectedNodes (fold (\<lambda>l. breakLinkById (lid l)) ls s) = selectedNodes s \<and>
   pinsAgree (pinstore s) (pinstore (fold (\<lambda>l. breakLinkById (lid l)) ls s)) \<and>
   links (fold (\<lambda>l. breakLinkById (lid l)) ls s) =
     filter (\<lambda>k. lid k \<notin> lid ` set ls) (links s)"
proof (induction ls arbitrary: s)
  case Nil
  show ?case by simp
next
  case (Cons l ls)
  from Cons.IH [of "breakLinkById (lid l) s"] show ?case
    by (auto simp: breakLinkById_links intro: pinsAgree_trans [OF breakLinkById_pins]
        intro!: filter_cong)
qed

lemma breakPinLinks_frame [simp]:
  "nodes (breakPinLinks p s) = nodes s"
  "counter (breakPinLinks p s) = counter s"
  "fired (breakPinLinks p s) = fired s"
  "selectedNodes (breakPinLinks p s) = selectedNodes s"
  by (simp_all add: breakPinLinks_def fold_breakLinkById_frame)

lemma breakPinLinks_pins: "pinsAgree (pinstore s) (pinstore (breakPinLinks p s))"
  by (simp add: breakPinLinks_def fold_breakLinkById_frame)


lemma mapSet_mem: "x \<in> set (mapSet key x xs)"
  by (induction xs) auto

lemma set_mapSet_subset: "set (mapSet key x xs) \<subseteq> insert x (set xs)"
  by (induction xs) auto

lemma addLink_frame [simp]:
  "nodes (addLink E x y s) = nodes s"
  "counter (addLink E x y s) = Suc (counter s)"
  "fired (addLink E x y s) = fired s"
  "deferred (addLink E x y s) = deferred s"
  "selectedNodes (addLink E x y s) = selectedNodes s"
  by (simp_all add: addLink_def uniqueId_def)

lemma addLink_links:
  "links (addLink E x y s) =
     mapSet lid \<lparr>lid = ''link-'' @ idSuffix E (counter s), lstart = x, lend = y\<rparr> (links s)"
  by (simp add: addLink_def uniqueId_def)

lemma addLink_pins: "pinsAgree (pinstore s) (pinstore (addLink E x y s))"
  by (auto simp: addLink_def uniqueId_def
      intro: pinsAgree_trans [OF pinsAgree_pushLinkId pinsAgree_pushLinkId])

text \<open>
  What selection, node creation and the adapter block leave alone.
\<close>

lemma selectNode_frame [simp]:
  "nodes (selectNode i a m s) = nodes s"
  "links (selectNode i a m s) = links s"
  "pinstore (selectNode i a m s) = pinstore s"
  "counter (selectNode i a m s) = counter s"
  "fired (selectNode i a m s) = fired s"
  "deferred (selectNode i a m s) = deferred s"
  by (cases m; simp add: selectNode_def clearSelection_def Let_def split: option.splits)+


lemma selectNode_New_existing:
  assumes "n \<in> set (nodes s)"
  shows "selectNode (nid n) False New s = s\<lparr>selectedNodes := [nid n]\<rparr>"
proof -
  from assms have "nodesGet (nid n) s \<noteq> None"
    by (auto simp: nodesGet_def find_None_iff)
  then show ?thesis
    by (auto simp: selectNode_def clearSelection_def setAdd_def)
qed

lemma addNode_None:
  assumes "addNode E k x y s = (None, s')"
  shows "s' = s \<or> (\<exists>i. s' = s\<lparr>selectedNodes := [i]\<rparr>)"
proof (cases "registry E k")
  case None
  with assms show ?thesis by (simp add: addNode_def)
next
  case (Some t)
  show ?thesis
  proof (cases "if t_singleton t then find (\<lambda>n. nkey n = k) (nodes s) else None")
    case None
    with Some assms show ?thesis
      by (simp add: addNode_def uniqueId_def newNode_def)
  next
    case (Some ex)
    then have "ex \<in> set (nodes s)"
      by (auto simp: find_Some_iff split: if_splits)
    from selectNode_New_existing [OF this] Some \<open>registry E k = Some t\<close> assms
    have "s' = s\<lparr>selectedNodes := [nid ex]\<rparr>" by (simp add: addNode_def)
    then show ?thesis by blast
  qed
qed

lemma addNode_counter: "counter s \<le> counter (snd (addNode E k x y s))"
  by (auto simp: addNode_def uniqueId_def newNode_def split: option.splits if_splits)

lemma addNode_links [simp]: "links (snd (addNode E k x y s)) = links s"
  by (auto simp: addNode_def uniqueId_def newNode_def split: option.splits if_splits)

lemma addNode_fired:
  "fired (snd (addNode E k x y s)) = fired s \<or>
   fired (snd (addNode E k x y s)) = fired s @ [MarkDirty]"
  by (auto simp: addNode_def uniqueId_def newNode_def split: option.splits if_splits)

lemma tryAdapter_False:
  assumes "tryAdapter E st e s1 = (False, t)"
  shows "counter s1 \<le> counter t \<and> links t = links s1 \<and>
         (fired t = fired s1 \<or> fired t = fired s1 @ [MarkDirty])"
proof -
  have add: "counter s1 \<le> counter u \<and> links u = links s1 \<and>
             (fired u = fired s1 \<or> fired u = fired s1 @ [MarkDirty])"
    if "addNode E k x y s1 = (r, u)" for k x y r u
    using addNode_counter [of s1 E k x y] addNode_links [of E k x y s1]
      addNode_fired [of E k x y s1] that by simp
  show ?thesis
    using assms
    by (auto simp: tryAdapter_def Let_def split: option.splits prod.splits if_splits
        dest!: add)
qed

lemma tryAdapter_True:
  assumes "tryAdapter E st e s1 = (True, t)"
  shows "\<exists>u ci co. counter s1 \<le> counter u \<and>
           (fired u = fired s1 \<or> fired u = fired s1 @ [MarkDirty]) \<and>
           t = (addLink E co e (addLink E st ci u))
                 \<lparr>fired := fired u @ [AutoSave, MarkDirty]\<rparr>"
proof -
  have add: "counter s1 \<le> counter u \<and>
             (fired u = fired s1 \<or> fired u = fired s1 @ [MarkDirty])"
    if "addNode E k x y s1 = (r, u)" for k x y r u
    using addNode_counter [of s1 E k x y] addNode_fired [of E k x y s1] that by simp
  show ?thesis
    using assms
    by (auto simp: tryAdapter_def Let_def split: option.splits prod.splits if_splits
        dest!: add)
qed

text \<open>Every path of \<open>createConnection\<close> on two pins ends with \<open>addLink\<close> into the end
  pin, followed by the two notifications.\<close>

lemma createConnection_ends:
  "\<exists>t x. counter s \<le> counter t \<and>
     (fired t = fired s \<or> fired t = fired s @ [MarkDirty]) \<and>
     createConnection E (Some a) (Some b) s =
       (addLink E x (if pdir (pinstore s ! a) = In then a else b) t)
         \<lparr>fired := fired t @ [AutoSave, MarkDirty]\<rparr>"
proof -
  define e where "e = (if pdir (pinstore s ! a) = In then a else b)"
  define st where "st = (if pdir (pinstore s ! a) = Out then a else b)"
  define s1 where "s1 = (if getMaxLinks (pinstore s ! e) = Some 1 \<and> isConnected (pinstore s ! e)
                  then breakPinLinks (pid (pinstore s ! e)) s else s)"
  have s1: "counter s1 = counter s" "fired s1 = fired s"
    by (simp_all add: s1_def)
  have cc: "createConnection E (Some a) (Some b) s =
      (case tryAdapter E st e s1 of (True, s') \<Rightarrow> s' | (False, s2) \<Rightarrow> connectDirect E st e s2)"
    unfolding createConnection_def Let_def e_def st_def s1_def option.case by (rule refl)
  obtain r t where ta: "tryAdapter E st e s1 = (r, t)"
    by (cases "tryAdapter E st e s1")
  show ?thesis
  proof (cases r)
    case True
    with ta have "tryAdapter E st e s1 = (True, t)" by simp
    from tryAdapter_True [OF this] obtain u ci co where
      "counter s1 \<le> counter u" "fired u = fired s1 \<or> fired u = fired s1 @ [MarkDirty]"
      "t = (addLink E co e (addLink E st ci u))\<lparr>fired := fired u @ [AutoSave, MarkDirty]\<rparr>"
      by blast
    then show ?thesis
      unfolding cc ta e_def [symmetric] using True s1
      by (intro exI [of _ "addLink E st ci u"] exI [of _ co]) auto
  next
    case False
    with ta have "tryAdapter E st e s1 = (False, t)" by simp
    from tryAdapter_False [OF this] show ?thesis
      unfolding cc ta e_def [symmetric] using False s1
      by (intro exI [of _ t] exI [of _ st]) (auto simp: connectDirect_def Let_def)
  qed
qed

text \<open>
  Claim C10. \<open>createConnection\<close> validates nothing: for any two pins (non-null
  arguments), whatever their nodes, directions and container types, the link collection
  after the call holds a link into the end pin that was not there before. Identifiers
  drawn from the counter are taken not to be in use yet, as \<open>uniqueId\<close> promises.
\<close>

lemma createConnection_new_link:
  assumes fresh: "\<forall>k\<ge>counter s. ''link-'' @ idSuffix E k \<notin> lid ` set (links s)"
  shows "\<exists>l \<in> set (links (createConnection E (Some a) (Some b) s)).
           lid l \<notin> lid ` set (links s) \<and>
           lend l = (if pdir (pinstore s ! a) = In then a else b)"
proof -
  from createConnection_ends [of s E a b] obtain t x where
    t: "counter s \<le> counter t"
    and cc: "createConnection E (Some a) (Some b) s =
       (addLink E x (if pdir (pinstore s ! a) = In then a else b) t)
         \<lparr>fired := fired t @ [AutoSave, MarkDirty]\<rparr>"
    by blast
  let ?l = "\<lparr>lid = ''link-'' @ idSuffix E (counter t), lstart = x,
             lend = (if pdir (pinstore s ! a) = In then a else b)\<rparr>"
  have "?l \<in> set (links (createConnection E (Some a) (Some b) s))"
    unfolding cc by (simp add: addLink_links mapSet_mem)
  moreover have "lid ?l \<notin> lid ` set (links s)"
    using fresh t by simp
  ultimately show ?thesis
    by (intro bexI [of _ ?l]) simp_all
qed

text \<open>
  Lemmas for the adapter rollback.
\<close>

lemma s1_pins:
  "pinsAgree (pinstore s)
     (pinstore (if c then breakPinLinks p s else s))"
  by (simp add: breakPinLinks_pins)

lemma find_new_pin_None:
  "find (\<lambda>a. pid ((st @ map (newPin i) ps) ! a) = i @ ''-'' @ l)
     [length st ..< length st + length ps] = None \<longleftrightarrow> l \<notin> pd_id ` set ps"
proof -
  have "(\<exists>a \<in> {length st ..< length st + length ps}.
           pid ((st @ map (newPin i) ps) ! a) = i @ ''-'' @ l) \<longleftrightarrow>
        (\<exists>j < length ps. pd_id (ps ! j) = l)"
  proof
    assume "\<exists>a \<in> {length st ..< length st + length ps}.
           pid ((st @ map (newPin i) ps) ! a) = i @ ''-'' @ l"
    then obtain a where a: "length st \<le> a" "a < length st + length ps"
      and e: "pid ((st @ map (newPin i) ps) ! a) = i @ ''-'' @ l" by auto
    from a have "a - length st < length ps" by simp
    moreover from a e have "pd_id (ps ! (a - length st)) = l"
      by (simp add: nth_append newPin_def)
    ultimately show "\<exists>j < length ps. pd_id (ps ! j) = l" by blast
  next
    assume "\<exists>j < length ps. pd_id (ps ! j) = l"
    then obtain j where j: "j < length ps" "pd_id (ps ! j) = l" by blast
    then have "pid ((st @ map (newPin i) ps) ! (length st + j)) = i @ ''-'' @ l"
      by (simp add: nth_append newPin_def)
    with j show "\<exists>a \<in> {length st ..< length st + length ps}.
           pid ((st @ map (newPin i) ps) ! a) = i @ ''-'' @ l"
      by (intro bexI [of _ "length st + j"]) simp_all
  qed
  moreover have "(\<exists>j < length ps. pd_id (ps ! j) = l) \<longleftrightarrow> l \<in> pd_id ` set ps"
    by (metis image_iff in_set_conv_nth)
  ultimately have "(\<exists>a \<in> set [length st ..< length st + length ps].
           pid ((st @ map (newPin i) ps) ! a) = i @ ''-'' @ l) \<longleftrightarrow> l \<in> pd_id ` set ps"
    by simp
  then show ?thesis
    unfolding find_None_iff by blast
qed

lemma pushLinkId_length [simp]: "length (pushLinkId i a st) = length st"
  by (simp add: pushLinkId_def)

lemma pushLinkId_same: "a < length st \<Longrightarrow> plinks (pushLinkId i a st ! a) = plinks (st ! a) @ [i]"
  by (simp add: pushLinkId_def)

lemma pushLinkId_other: "x \<noteq> a \<Longrightarrow> pushLinkId i a st ! x = st ! x"
  by (simp add: pushLinkId_def)

lemma addLink_pinstore:
  "pinstore (addLink E x y s) =
     pushLinkId (''link-'' @ idSuffix E (counter s)) y
       (pushLinkId (''link-'' @ idSuffix E (counter s)) x (pinstore s))"
  by (simp add: addLink_def uniqueId_def)

lemma filter_mapSet_same:
  "filter (\<lambda>m. key m \<noteq> key n) (mapSet key n xs) = filter (\<lambda>m. key m \<noteq> key n) xs"
  by (induction xs) auto

text \<open>
  Claim C3, as amended. When \<open>createConnection\<close> is called on pins whose value types
  differ (neither being \<open>exec\<close>), an adapter key is registered, the adapter node is
  instantiated, and its template lacks the \<open>val_in\<close> or the \<open>val_out\<close> pin: the
  adapter node is removed again from the node collection, and the connection is then
  made directly. The link collection is the one left by the replace-on-connect step
  plus one new link from the start pin to the end pin; the new link's identifier is
  appended to the link list of the start pin and to that of the end pin, and every
  other pin is as the replace-on-connect step left it; the notifications made are the
  adapter's \<open>markDirty\<close> followed by \<open>autoSave\<close> and \<open>markDirty\<close>.
\<close>

theorem createConnection_adapter_rollback:
  assumes st: "startPin = (if pdir (pinstore s ! a) = Out then a else b)"
    and e: "endPin = (if pdir (pinstore s ! a) = In then a else b)"
    and s1: "s1 = (if getMaxLinks (pinstore s ! endPin) = Some 1 \<and> isConnected (pinstore s ! endPin)
                   then breakPinLinks (pid (pinstore s ! endPin)) s else s)"
    and differ: "ptype (pinstore s ! startPin) \<noteq> ptype (pinstore s ! endPin)"
    and noexec: "ptype (pinstore s ! startPin) \<noteq> ''exec''" "ptype (pinstore s ! endPin) \<noteq> ''exec''"
    and conv: "conversion E (ptype (pinstore s ! startPin)) (ptype (pinstore s ! endPin)) = Some convKey"
      "convKey \<noteq> []"
    and reg: "registry E convKey = Some t"
    and inst: "t_singleton t \<longrightarrow> find (\<lambda>n. nkey n = convKey) (nodes s) = None"
    and ports: "''val_in'' \<notin> pd_id ` set (t_pins t) \<or> ''val_out'' \<notin> pd_id ` set (t_pins t)"
    and s': "s' = createConnection E (Some a) (Some b) s"
  shows "nodes s' = filter (\<lambda>m. nid m \<noteq> ''node-'' @ idSuffix E (counter s)) (nodes s) \<and>
         links s' = mapSet lid \<lparr>lid = ''link-'' @ idSuffix E (Suc (counter s)),
                                 lstart = startPin, lend = endPin\<rparr> (links s1) \<and>
         fired s' = fired s @ [MarkDirty, AutoSave, MarkDirty] \<and>
         (startPin < length (pinstore s) \<longrightarrow>
            plinks (pinstore s' ! startPin) =
              plinks (pinstore s1 ! startPin) @ [''link-'' @ idSuffix E (Suc (counter s))]) \<and>
         (endPin < length (pinstore s) \<longrightarrow>
            plinks (pinstore s' ! endPin) =
              plinks (pinstore s1 ! endPin) @ [''link-'' @ idSuffix E (Suc (counter s))]) \<and>
         (\<forall>x < length (pinstore s). x \<noteq> startPin \<and> x \<noteq> endPin \<longrightarrow>
            pinstore s' ! x = pinstore s1 ! x)"
proof -
  let ?i = "''node-'' @ idSuffix E (counter s)"
  let ?k = "''link-'' @ idSuffix E (Suc (counter s))"
  let ?mx = "(fst (pinPosition E startPin) + fst (pinPosition E endPin)) / 2 - 40"
  let ?my = "(snd (pinPosition E startPin) + snd (pinPosition E endPin)) / 2 - 15"
  let ?n = "\<lparr>nid = ?i, nx = ?mx, ny = ?my, nkey = convKey, ntitle = t_title t,
             npins = [length (pinstore s1) ..< length (pinstore s1) + length (t_pins t)],
             nliterals = []\<rparr>"
  let ?s2 = "s1\<lparr>counter := Suc (counter s1),
                pinstore := pinstore s1 @ map (newPin ?i) (t_pins t),
                nodes := mapSet nid ?n (nodes s1),
                fired := fired s1 @ [MarkDirty]\<rparr>"
  let ?st2 = "pinstore s1 @ map (newPin ?i) (t_pins t)"
  have fr: "counter s1 = counter s" "nodes s1 = nodes s" "fired s1 = fired s"
    by (simp_all add: s1)
  have ag: "pinsAgree (pinstore s) (pinstore s1)"
    unfolding s1 by (rule s1_pins)
  then have len: "length (pinstore s1) = length (pinstore s)"
    by (simp add: pinsAgree_def)
  have ty: "ptype (pinstore s1 ! x) = ptype (pinstore s ! x)" for x
    by (rule pinsAgree_fields [OF ag])
  have ne: "startPin \<noteq> endPin"
    using differ by auto
  have add: "addNode E convKey ?mx ?my s1 = (Some ?n, ?s2)"
    using reg inst by (auto simp: addNode_def uniqueId_def newNode_def fr)
  have misses: "nodeFindPinById ?n (?i @ ''-val_in'') ?s2 = None \<or>
                nodeFindPinById ?n (?i @ ''-val_out'') ?s2 = None"
    using ports find_new_pin_None [of "pinstore s1" ?i "t_pins t" "''val_in''"]
      find_new_pin_None [of "pinstore s1" ?i "t_pins t" "''val_out''"]
    by (simp add: nodeFindPinById_def)
  have ta: "tryAdapter E startPin endPin s1 =
      (False, ?s2\<lparr>nodes := filter (\<lambda>m. nid m \<noteq> ?i) (nodes ?s2)\<rparr>)"
    using differ noexec conv misses
    by (auto simp: tryAdapter_def Let_def ty add split: option.splits)
  have cc: "s' = connectDirect E startPin endPin
                   (?s2\<lparr>nodes := filter (\<lambda>m. nid m \<noteq> ?i) (nodes ?s2)\<rparr>)"
    unfolding s' createConnection_def option.case Let_def st [symmetric] e [symmetric]
      s1 [symmetric] ta by simp
  have ps: "pinstore s' = pushLinkId ?k endPin (pushLinkId ?k startPin ?st2)"
    unfolding cc by (simp add: connectDirect_def Let_def addLink_pinstore fr)
  have A: "nodes s' = filter (\<lambda>m. nid m \<noteq> ?i) (nodes s) \<and>
         links s' = mapSet lid \<lparr>lid = ?k, lstart = startPin, lend = endPin\<rparr> (links s1) \<and>
         fired s' = fired s @ [MarkDirty, AutoSave, MarkDirty]"
    unfolding cc
    using filter_mapSet_same [of nid ?n "nodes s"]
    by (simp add: connectDirect_def Let_def addLink_links fr)
  have B: "plinks (pinstore s' ! startPin) = plinks (pinstore s1 ! startPin) @ [?k]"
    if "startPin < length (pinstore s)"
  proof -
    from that have "startPin < length ?st2" by (simp add: len)
    from pushLinkId_same [OF this, of ?k] that show ?thesis
      by (simp add: ps pushLinkId_other [OF ne] nth_append len)
  qed
  have C: "plinks (pinstore s' ! endPin) = plinks (pinstore s1 ! endPin) @ [?k]"
    if "endPin < length (pinstore s)"
  proof -
    from that have "endPin < length (pushLinkId ?k startPin ?st2)" by (simp add: len)
    from pushLinkId_same [OF this, of ?k] that show ?thesis
      by (simp add: ps pushLinkId_other [OF ne [symmetric]] nth_append len)
  qed
  have D: "pinstore s' ! x = pinstore s1 ! x"
    if "x < length (pinstore s)" "x \<noteq> startPin" "x \<noteq> endPin" for x
    using that by (simp add: ps pushLinkId_other nth_append len)
  from A B C D show ?thesis by blast
qed

text \<open>
  The claim as stated fails: with a \<open>bool\<close> output, a \<open>string\<close> input and the
  adapter \<open>BoolToString\<close> that exposes no \<open>val_out\<close>, the link collection, empty
  before the call, holds a link from pin 1 to pin 2 after it, and both pins list it.
\<close>

theorem createConnection_adapter_rollback_counterexample:
  "ptype (pinstore exMismatch ! 1) = ''bool'' \<and> ptype (pinstore exMismatch ! 2) = ''string'' \<and>
   conversion exEnv ''bool'' ''string'' = Some ''BoolToString'' \<and>
   map pd_id (t_pins (the (registry exEnv ''BoolToString''))) = [''val_in''] \<and>
   links exMismatch = [] \<and>
   links (createConnection exEnv (Some 1) (Some 2) exMismatch) =
     [\<lparr>lid = ''link-iiii'', lstart = 1, lend = 2\<rparr>] \<and>
   plinks (pinstore (createConnection exEnv (Some 1) (Some 2) exMismatch) ! 1) = [''link-iiii''] \<and>
   plinks (pinstore (createConnection exEnv (Some 1) (Some 2) exMismatch) ! 2) = [''link-iiii'']"
  by code_simp

theorem createConnection_adapter_rollback_witness:
  "nodes (createConnection exEnv (Some 1) (Some 2) exMismatch) = nodes exMismatch \<and>
   links (createConnection exEnv (Some 1) (Some 2) exMismatch) =
     [\<lparr>lid = ''link-iiii'', lstart = 1, lend = 2\<rparr>] \<and>
   fired (createConnection exEnv (Some 1) (Some 2) exMismatch) =
     fired exMismatch @ [MarkDirty, AutoSave, MarkDirty] \<and>
   plinks (pinstore exMismatch ! 1) = [] \<and> plinks (pinstore exMismatch ! 2) = [] \<and>
   plinks (pinstore (createConnection exEnv (Some 1) (Some 2) exMismatch) ! 1) = [''link-iiii''] \<and>
   plinks (pinstore (createConnection exEnv (Some 1) (Some 2) exMismatch) ! 2) = [''link-iiii''] \<and>
   pinstore (createConnection exEnv (Some 1) (Some 2) exMismatch) ! 0 = pinstore exMismatch ! 0"
proof -
  let ?t = "\<lparr>t_title = ''BoolToString'', t_pins = [pd ''val_in'' ''bool'' In None],
             t_singleton = False\<rparr>"
  have h1: "(1::nat) = (if pdir (pinstore exMismatch ! 1) = Out then 1 else 2)" by code_simp
  have h2: "(2::nat) = (if pdir (pinstore exMismatch ! 1) = In then 1 else 2)" by code_simp
  have h3: "exMismatch =
      (if getMaxLinks (pinstore exMismatch ! 2) = Some 1 \<and> isConnected (pinstore exMismatch ! 2)
       then breakPinLinks (pid (pinstore exMismatch ! 2)) exMismatch else exMismatch)"
    by code_simp
  have h4: "ptype (pinstore exMismatch ! 1) \<noteq> ptype (pinstore exMismatch ! 2)" by code_simp
  have h5: "ptype (pinstore exMismatch ! 1) \<noteq> ''exec''" by code_simp
  have h6: "ptype (pinstore exMismatch ! 2) \<noteq> ''exec''" by code_simp
  have h7: "conversion exEnv (ptype (pinstore exMismatch ! 1)) (ptype (pinstore exMismatch ! 2)) =
      Some ''BoolToString''" by code_simp
  have h8: "''BoolToString'' \<noteq> []" by simp
  have h9: "registry exEnv ''BoolToString'' = Some ?t"
    by (simp add: exEnv_def exRegistry_def)
  have h10: "t_singleton ?t \<longrightarrow> find (\<lambda>n. nkey n = ''BoolToString'') (nodes exMismatch) = None"
    by simp
  have h11: "''val_in'' \<notin> pd_id ` set (t_pins ?t) \<or> ''val_out'' \<notin> pd_id ` set (t_pins ?t)"
    by (simp add: pd_def)
  have c: "counter exMismatch = 2" and l: "links exMismatch = []"
    and n: "map nid (nodes exMismatch) = [''node-i'', ''node-ii'']"
    and len: "length (pinstore exMismatch) = 3"
    and p: "plinks (pinstore exMismatch ! 1) = []" "plinks (pinstore exMismatch ! 2) = []"
    by code_simp+
  have keep: "filter (\<lambda>m. nid m \<noteq> ''node-iii'') (nodes exMismatch) = nodes exMismatch"
    by code_simp
  from createConnection_adapter_rollback [OF h1 h2 h3 h4 h5 h6 h7 h8 h9 h10 h11 refl] p
  show ?thesis
    by (simp add: keep c l len exEnv_def eval_nat_numeral)
qed

theorem createConnection_new_link_witness:
  "pnode (pinstore exLinked ! 5) = pnode (pinstore exLinked ! 4) \<and>
   \<not> canConnect (conversion exEnv) (Some (pinstore exLinked ! 5)) (Some (pinstore exLinked ! 4)) \<and>
   (\<exists>l \<in> set (links (createConnection exEnv (Some 5) (Some 4) exLinked)).
      lid l \<notin> lid ` set (links exLinked) \<and> lend l = 4)"
proof -
  have c: "counter exLinked = 3" and l: "map lid (links exLinked) = [''link-iii'']"
    and d: "pdir (pinstore exLinked ! 5) = Out"
    by code_simp+
  have "replicate k CHR ''i'' \<noteq> ''ii''" if "3 \<le> k" for k
    using that by (auto dest!: arg_cong [where f = length])
  then have fresh: "\<forall>k\<ge>counter exLinked. ''link-'' @ idSuffix exEnv k \<notin> lid ` set (links exLinked)"
    using l by (simp add: c exEnv_def flip: set_map)
  have same: "pnode (pinstore exLinked ! 5) = pnode (pinstore exLinked ! 4)"
    "\<not> canConnect (conversion exEnv) (Some (pinstore exLinked ! 5)) (Some (pinstore exLinked ! 4))"
    by code_simp+
  from createConnection_new_link [OF fresh, of 5 4] same d show ?thesis
    by simp
qed














lemma fold_selectNode_fired [simp]:
  "fired (fold (\<lambda>i. selectNode i a m) is s) = fired s"
  by (induction "is" arbitrary: s) simp_all


lemma snapSelectedNodesToGrid_fired [simp]:
  "fired (snapSelectedNodesToGrid s) = fired s"
proof -
  have "fired (fold (\<lambda>i t. case nodesGet i t of None \<Rightarrow> t
          | Some n \<Rightarrow> t\<lparr>nodes := mapSet nid (n\<lparr>nx := snap (nx n), ny := snap (ny n)\<rparr>) (nodes t)\<rparr>)
        is s) = fired s" for "is"
    by (induction "is" arbitrary: s) (simp_all split: option.splits)
  then show ?thesis by (simp add: snapSelectedNodesToGrid_def)
qed







end
